theory Spec2Isabelle
  imports Complex_Main "HOL-Library.AList"
begin

section \<open>TalosMapEditor: entity store, visual proxies, camera and persistence\<close>

text \<open>
  A shallow embedding of the Python sources. Python objects are records, a dict is an
  association list with distinct keys in insertion order (\<open>d[k] = v\<close> is
  \<open>AList.update\<close>, \<open>d.pop(k, None)\<close> is \<open>map_of\<close> followed by \<open>AList.delete\<close>,
  \<open>d.get(k)\<close> is \<open>map_of\<close>), Python's unbounded integers are \<open>int\<close>, and
  Python and numpy floating-point numbers are idealised as \<open>real\<close>. A raised
  exception is a value of type \<open>error\<close>; a function that mutates its receiver takes the
  old state and returns the new one.
\<close>

subsection \<open>Exceptions and return values\<close>

datatype error =
    AttributeError string string
  | NotImplementedError string
  | LinAlgError string
  | ZeroDivisionError
  | ValueError string

text \<open>What a Python call hands back when the claim is about its return value.\<close>

datatype pyval = PyNone | PyBool bool

subsection \<open>components/id\_manager.py\<close>

record IDManager =
  id_counter :: int

definition IDManager_init :: IDManager where
  "IDManager_init = \<lparr>id_counter = 0\<rparr>"

definition get_new_id :: "IDManager \<Rightarrow> int \<times> IDManager" where
  "get_new_id m = (let m' = m\<lparr>id_counter := id_counter m + 1\<rparr> in (id_counter m', m'))"

definition reset :: "IDManager \<Rightarrow> IDManager" where
  "reset m = m\<lparr>id_counter := 0\<rparr>"

definition release_id :: "IDManager \<Rightarrow> int \<Rightarrow> error + IDManager" where
  "release_id m id_val = Inl (NotImplementedError ''ID reuse not implemented yet.'')"

text \<open>\<open>get_new_id\<close> called \<open>n\<close> times in a row on one allocator, results in call order.\<close>

fun get_new_ids :: "nat \<Rightarrow> IDManager \<Rightarrow> int list \<times> IDManager" where
  "get_new_ids 0 m = ([], m)"
| "get_new_ids (Suc n) m =
     (let (i, m') = get_new_id m; (js, m'') = get_new_ids n m' in (i # js, m''))"

subsection \<open>Backend entities (components/station.py, path.py, agv.py)\<close>

text \<open>
  Field names carry a prefix per class (\<open>t_\<close>, \<open>n_\<close>, \<open>s_\<close>, \<open>a_\<close>) because the classes
  share the attribute names \<open>name\<close>, \<open>id\<close>, \<open>position\<close>, \<open>size\<close> and \<open>direction\<close>.
  The two-element list \<open>position\<close> is a pair and the three-element list \<open>size\<close> a triple
  (width, length, height). An \<open>id\<close> of \<open>None\<close> is \<open>None\<close>.
\<close>

record StationType =
  t_name :: string
  t_color :: string
  t_description :: string
  port_x :: real
  port_y :: real
  port_direction :: real

text \<open>The dataclass constructor with its defaults for the attributes left out.\<close>

definition StationType_init :: "string \<Rightarrow> string \<Rightarrow> string \<Rightarrow> StationType" where
  "StationType_init name color description =
     \<lparr>t_name = name, t_color = color, t_description = description,
      port_x = 3 / 2, port_y = 0, port_direction = 0\<rparr>"

record PathNode =
  n_position :: "real \<times> real"
  n_connected_paths :: "int list"
  n_id :: "int option"
  n_direction :: real
  n_name :: "string option"

definition PathNode_init :: "real \<Rightarrow> real \<Rightarrow> real \<Rightarrow> int option \<Rightarrow> string option \<Rightarrow> PathNode" where
  "PathNode_init x y direction ident name =
     \<lparr>n_position = (x, y), n_connected_paths = [], n_id = ident,
      n_direction = direction, n_name = name\<rparr>"

record Station =
  s_position :: "real \<times> real"
  s_station_type :: StationType
  s_name :: string
  s_id :: "int option"
  s_size :: "real \<times> real \<times> real"
  s_direction :: real
  s_port :: "PathNode option"
  s_mesh_path :: "string option"

definition Station_init :: "real \<Rightarrow> real \<Rightarrow> StationType \<Rightarrow> string \<Rightarrow> int option \<Rightarrow> Station" where
  "Station_init x y station_type name ident =
     \<lparr>s_position = (x, y), s_station_type = station_type, s_name = name, s_id = ident,
      s_size = (1, 1, 1), s_direction = 0, s_port = None, s_mesh_path = None\<rparr>"

definition set_3d_size :: "real \<Rightarrow> real \<Rightarrow> real \<Rightarrow> Station \<Rightarrow> Station" where
  "set_3d_size width len height st = st\<lparr>s_size := (width, len, height)\<rparr>"

record AGV =
  a_name :: string
  a_position :: "real \<times> real"
  a_size :: "real \<times> real \<times> real"
  a_id :: "int option"
  a_max_speed :: real
  a_max_acc :: real
  a_max_dec :: real
  a_direction :: real
  a_status :: string
  a_agv_interactions :: "int list"
  a_port :: "PathNode option"

definition AGV_init :: "string \<Rightarrow> real \<times> real \<Rightarrow> real \<times> real \<times> real \<Rightarrow> AGV" where
  "AGV_init name position sz =
     \<lparr>a_name = name, a_position = position, a_size = sz, a_id = None,
      a_max_speed = 1, a_max_acc = 1 / 2, a_max_dec = 1 / 2, a_direction = 0,
      a_status = ''unknown'', a_agv_interactions = [], a_port = None\<rparr>"

subsection \<open>components/class\_holder.py\<close>

record ClassHolder =
  station_id_manager :: IDManager
  agv_id_manager :: IDManager
  path_id_manager :: IDManager
  path_node_id_manager :: IDManager
  stations :: "(int \<times> Station) list"
  agvs :: "(int \<times> AGV) list"
  paths :: "(int \<times> unit) list"
  path_nodes :: "(int \<times> PathNode) list"
  stations_by_name :: "(string \<times> Station) list"
  agvs_by_name :: "(string \<times> AGV) list"
  station_types :: "(string \<times> StationType) list"

definition ClassHolder_init :: ClassHolder where
  "ClassHolder_init =
     \<lparr>station_id_manager = IDManager_init, agv_id_manager = IDManager_init,
      path_id_manager = IDManager_init, path_node_id_manager = IDManager_init,
      stations = [], agvs = [], paths = [], path_nodes = [],
      stations_by_name = [], agvs_by_name = [], station_types = []\<rparr>"

text \<open>
  \<open>add_station\<close>: an id is drawn only when the station has none; the id map is written
  always, the name map only when the name is truthy (a non-empty string).
\<close>

definition add_station :: "Station \<Rightarrow> ClassHolder \<Rightarrow> Station \<times> ClassHolder" where
  "add_station station h =
     (let (i, station1, h1) =
            (case s_id station of
               None \<Rightarrow>
                 (let (k, m) = get_new_id (station_id_manager h)
                  in (k, station\<lparr>s_id := Some k\<rparr>, h\<lparr>station_id_manager := m\<rparr>))
             | Some k \<Rightarrow> (k, station, h));
          h2 = h1\<lparr>stations := AList.update i station1 (stations h1)\<rparr>;
          h3 = (if s_name station1 \<noteq> []
                then h2\<lparr>stations_by_name :=
                          AList.update (s_name station1) station1 (stations_by_name h2)\<rparr>
                else h2)
      in (station1, h3))"

definition get_station_by_id :: "ClassHolder \<Rightarrow> int \<Rightarrow> Station option" where
  "get_station_by_id h station_id = map_of (stations h) station_id"

definition get_station_by_name :: "ClassHolder \<Rightarrow> string \<Rightarrow> Station option" where
  "get_station_by_name h name = map_of (stations_by_name h) name"

text \<open>
  \<open>delete_station\<close> pops the id; when something was popped and its name is a key of the
  name map, that key is popped, whichever station it maps to. The method has no
  \<open>return\<close> statement.
\<close>

definition delete_station :: "int \<Rightarrow> ClassHolder \<Rightarrow> pyval \<times> ClassHolder" where
  "delete_station station_id h =
     (let station = map_of (stations h) station_id;
          h1 = h\<lparr>stations := AList.delete station_id (stations h)\<rparr>
      in case station of
           None \<Rightarrow> (PyNone, h1)
         | Some st \<Rightarrow>
             if s_name st \<in> set (map fst (stations_by_name h1))
             then (PyNone, h1\<lparr>stations_by_name := AList.delete (s_name st) (stations_by_name h1)\<rparr>)
             else (PyNone, h1))"

definition get_all_stations :: "ClassHolder \<Rightarrow> Station list" where
  "get_all_stations h = map snd (stations h)"





definition get_all_agvs :: "ClassHolder \<Rightarrow> AGV list" where
  "get_all_agvs h = map snd (agvs h)"

definition add_path_node :: "PathNode \<Rightarrow> ClassHolder \<Rightarrow> PathNode \<times> ClassHolder" where
  "add_path_node node h =
     (let (i, node1, h1) =
            (case n_id node of
               None \<Rightarrow>
                 (let (k, m) = get_new_id (path_node_id_manager h)
                  in (k, node\<lparr>n_id := Some k\<rparr>, h\<lparr>path_node_id_manager := m\<rparr>))
             | Some k \<Rightarrow> (k, node, h))
      in (node1, h1\<lparr>path_nodes := AList.update i node1 (path_nodes h1)\<rparr>))"


definition delete_path_node :: "int \<Rightarrow> ClassHolder \<Rightarrow> pyval \<times> ClassHolder" where
  "delete_path_node node_id h = (PyNone, h\<lparr>path_nodes := AList.delete node_id (path_nodes h)\<rparr>)"

definition get_all_path_nodes :: "ClassHolder \<Rightarrow> PathNode list" where
  "get_all_path_nodes h = map snd (path_nodes h)"

subsection \<open>StationTypeManager (components/station.py)\<close>

type_synonym StationTypeManager = "(string \<times> StationType) list"

definition add_type :: "StationType \<Rightarrow> StationTypeManager \<Rightarrow> bool \<times> StationTypeManager" where
  "add_type station_type types =
     (if t_name station_type \<in> set (map fst types) then (False, types)
      else (True, AList.update (t_name station_type) station_type types))"

definition get_type :: "StationTypeManager \<Rightarrow> string \<Rightarrow> StationType option" where
  "get_type types name = map_of types name"

definition Loading :: StationType where
  "Loading = StationType_init ''Loading'' ''#4CAF50'' ''Loading station for materials''"

definition StationTypeManager_init :: StationTypeManager where
  "StationTypeManager_init =
     snd (add_type (StationType_init ''Storage'' ''#2196F3'' ''Storage location'')
       (snd (add_type (StationType_init ''Charging'' ''#FFC107'' ''QAGV charging station'')
         (snd (add_type (StationType_init ''Unloading'' ''#f44336'' ''Unloading station for materials'')
           (snd (add_type Loading [])))))))"

subsection \<open>ui/realtime\_view.py: matrices\<close>

text \<open>
  numpy vectors and 4x4 matrices are lists of reals and lists of rows. \<open>np.dot\<close> is
  \<open>dot_mv\<close> on a matrix and a vector and \<open>dot_mm\<close> on two matrices.
  \<open>np.linalg.inv\<close> is the exact inverse (cofactors over the determinant) and raises
  \<open>LinAlgError\<close> on a singular matrix.
\<close>

type_synonym vec = "real list"
type_synonym mat = "real list list"

definition identity :: "nat \<Rightarrow> mat" where
  "identity n = map (\<lambda>i. map (\<lambda>j. if i = j then 1 else 0) [0..<n]) [0..<n]"

definition dot_vv :: "vec \<Rightarrow> vec \<Rightarrow> real" where
  "dot_vv u v = sum_list (map2 (*) u v)"

definition dot_mv :: "mat \<Rightarrow> vec \<Rightarrow> vec" where
  "dot_mv m v = map (\<lambda>r. dot_vv r v) m"

definition dot_mm :: "mat \<Rightarrow> mat \<Rightarrow> mat" where
  "dot_mm a b = map (\<lambda>r. map (\<lambda>c. dot_vv r c) (transpose b)) a"

fun del_nth :: "nat \<Rightarrow> 'a list \<Rightarrow> 'a list" where
  "del_nth n [] = []"
| "del_nth 0 (x # xs) = xs"
| "del_nth (Suc n) (x # xs) = x # del_nth n xs"

function det :: "mat \<Rightarrow> real" where
  "det [] = 1"
| "det (r # rs) =
     sum_list (map (\<lambda>j. (- 1) ^ j * (r ! j) * det (map (del_nth j) rs)) [0..<length r])"
  by pat_completeness auto
termination
  by (relation "measure length") auto

definition cofactor :: "mat \<Rightarrow> nat \<Rightarrow> nat \<Rightarrow> real" where
  "cofactor m i j = (- 1) ^ (i + j) * det (map (del_nth j) (del_nth i m))"

definition linalg_inv :: "mat \<Rightarrow> error + mat" where
  "linalg_inv m =
     (if det m = 0 then Inl (LinAlgError ''Singular matrix'')
      else Inr (map (\<lambda>i. map (\<lambda>j. cofactor m j i / det m) [0..<length m]) [0..<length m]))"


subsection \<open>ui/realtime\_view.py: GLWidget\<close>

text \<open>
  \<open>widget_width\<close> and \<open>widget_height\<close> are what Qt answers for \<open>self.width()\<close> and
  \<open>self.height()\<close>.
\<close>

definition radians :: "real \<Rightarrow> real" where
  "radians deg = deg * pi / 180"

record GLWidget =
  camera_rotation :: "real \<times> real \<times> real"
  camera_distance :: real
  camera_position :: "real \<times> real \<times> real"
  model_matrix :: mat
  view_matrix :: mat
  projection_matrix :: mat
  min_zoom :: real
  max_zoom :: real
  zoom_speed :: real
  pan_speed :: real
  rotation_speed :: real
  gl_map_size :: int
  widget_width :: int
  widget_height :: int

definition GLWidget_init :: "int \<Rightarrow> int \<Rightarrow> GLWidget" where
  "GLWidget_init w h =
     \<lparr>camera_rotation = (45, 45, 0), camera_distance = 15, camera_position = (- 5, - 5, 5),
      model_matrix = identity 4, view_matrix = identity 4, projection_matrix = identity 4,
      min_zoom = 2, max_zoom = 50, zoom_speed = 11 / 10, pan_speed = 2 / 100,
      rotation_speed = 1 / 2, gl_map_size = 10, widget_width = w, widget_height = h\<rparr>"

definition perspective_matrix :: "real \<Rightarrow> real \<Rightarrow> real \<Rightarrow> real \<Rightarrow> mat" where
  "perspective_matrix fovy aspect near far =
     (let f = 1 / tan (radians fovy / 2)
      in [[f / aspect, 0, 0, 0],
          [0, f, 0, 0],
          [0, 0, (far + near) / (near - far), 2 * far * near / (near - far)],
          [0, 0, - 1, 0]])"

definition resizeGL :: "int \<Rightarrow> int \<Rightarrow> GLWidget \<Rightarrow> error option \<times> GLWidget" where
  "resizeGL w h s =
     (if h = 0 then (Some ZeroDivisionError, s)
      else (None, s\<lparr>projection_matrix :=
                      perspective_matrix 45 (real_of_int w / real_of_int h) (1 / 10) 100\<rparr>))"

definition create_view_matrix :: "GLWidget \<Rightarrow> mat" where
  "create_view_matrix s =
     (let (rx, ry, rz) = camera_rotation s;
          (px, py, pz) = camera_position s;
          view = identity 4;
          trans_matrix = [[1, 0, 0, - px], [0, 1, 0, - py], [0, 0, 1, - pz], [0, 0, 0, 1]];
          view = dot_mm view trans_matrix;
          angle_x = radians rx;
          rot_x = [[1, 0, 0, 0],
                   [0, cos angle_x, - sin angle_x, 0],
                   [0, sin angle_x, cos angle_x, 0],
                   [0, 0, 0, 1]];
          view = dot_mm view rot_x;
          angle_y = radians ry;
          rot_y = [[cos angle_y, 0, sin angle_y, 0],
                   [0, 1, 0, 0],
                   [- sin angle_y, 0, cos angle_y, 0],
                   [0, 0, 0, 1]];
          view = dot_mm view rot_y;
          zoom_matrix = [[1, 0, 0, 0], [0, 1, 0, 0], [0, 0, 1, - camera_distance s], [0, 0, 0, 1]];
          view = dot_mm view zoom_matrix
      in view)"

definition screen_to_world :: "GLWidget \<Rightarrow> real \<Rightarrow> real \<Rightarrow> error + vec" where
  "screen_to_world s screen_x screen_y =
     (if widget_width s = 0 \<or> widget_height s = 0 then Inl ZeroDivisionError
      else
        let x = 2 * screen_x / real_of_int (widget_width s) - 1;
            y = 1 - 2 * screen_y / real_of_int (widget_height s);
            vp_matrix = dot_mm (projection_matrix s) (view_matrix s)
        in case linalg_inv vp_matrix of
             Inl e \<Rightarrow> Inl e
           | Inr vp_inverse \<Rightarrow>
               let ray_clip = [x, y, - 1, 1];
                   ray_world = dot_mv vp_inverse ray_clip;
                   ray_world = (if ray_world ! 3 \<noteq> 0
                                then map (\<lambda>c. c / (ray_world ! 3)) ray_world else ray_world);
                   ray_world = (if ray_world ! 2 \<noteq> 0
                                then let t = - (ray_world ! 2)
                                     in map2 (+) ray_world (map (\<lambda>c. t * c) ray_world)
                                else ray_world)
               in Inr (take 3 ray_world))"

definition wheelEvent :: "int \<Rightarrow> GLWidget \<Rightarrow> error option \<times> GLWidget" where
  "wheelEvent angle_delta_y s =
     (let zoom_in = (angle_delta_y > 0) in
      if \<not> zoom_in \<and> zoom_speed s = 0 then (Some ZeroDivisionError, s)
      else
        let zoom_factor = (if zoom_in then zoom_speed s else 1 / zoom_speed s) in
        if zoom_factor = 0 then (Some ZeroDivisionError, s)
        else
          let new_distance = camera_distance s / zoom_factor in
          if min_zoom s \<le> new_distance \<and> new_distance \<le> max_zoom s then
            (case screen_to_world s (real_of_int (widget_width s) / 2)
                                    (real_of_int (widget_height s) / 2) of
               Inl e \<Rightarrow> (Some e, s)
             | Inr world_pos_before \<Rightarrow>
                 let s1 = s\<lparr>camera_distance := new_distance\<rparr> in
                 (case screen_to_world s1 (real_of_int (widget_width s1) / 2)
                                          (real_of_int (widget_height s1) / 2) of
                    Inl e \<Rightarrow> (Some e, s1)
                  | Inr world_pos_after \<Rightarrow>
                      let (px, py, pz) = camera_position s1
                      in (None, s1\<lparr>camera_position :=
                              (px + (world_pos_before ! 0 - world_pos_after ! 0),
                               py + (world_pos_before ! 1 - world_pos_after ! 1),
                               pz + (world_pos_before ! 2 - world_pos_after ! 2))\<rparr>)))
          else (None, s))"

text \<open>The part of \<open>paintGL\<close> that writes the widget: the view matrix is rebuilt.\<close>

definition paintGL_view :: "GLWidget \<Rightarrow> GLWidget" where
  "paintGL_view s = s\<lparr>view_matrix := create_view_matrix s\<rparr>"


text \<open>
  What the widget receives: wheel events (with \<open>angleDelta().y()\<close>) and repaints. An
  exception raised by a handler is reported by the event loop, and the widget goes on
  from the state the handler left.
\<close>

datatype gl_event = Wheel int | Paint

fun gl_step :: "gl_event \<Rightarrow> GLWidget \<Rightarrow> GLWidget" where
  "gl_step (Wheel angle_delta_y) s = snd (wheelEvent angle_delta_y s)"
| "gl_step Paint s = paintGL_view s"

fun gl_run :: "gl_event list \<Rightarrow> GLWidget \<Rightarrow> GLWidget" where
  "gl_run [] s = s"
| "gl_run (e # es) s = gl_run es (gl_step e s)"

text \<open>
  An 800 by 600 widget after \<open>resizeGL\<close>, its camera tilt and orbit dragged to 0 (a left
  button drag of 90 pixels left and 90 pixels up from the initial 45, 45), distance 15 and
  camera position (-5, -5, 5) as at start.
\<close>

definition level_widget :: GLWidget where
  "level_widget = snd (resizeGL 800 600 ((GLWidget_init 800 600)\<lparr>camera_rotation := (0, 0, 0)\<rparr>))"

text \<open>
  The widget as \<open>__init__\<close> leaves it, 800 by 600, after its first \<open>resizeGL\<close>.
\<close>

definition resized_widget :: GLWidget where
  "resized_widget = snd (resizeGL 800 600 (GLWidget_init 800 600))"

text \<open>
  Where a world point is drawn: \<open>paintGL\<close> loads the projection and the view matrix, so
  OpenGL multiplies a point by the same product \<open>_screen_to_world\<close> inverts. With clip
  coordinates x = y = 0 and w > 0 the point is at the centre of the viewport.
\<close>

definition clip_coords :: "GLWidget \<Rightarrow> vec \<Rightarrow> vec" where
  "clip_coords s p = dot_mv (dot_mm (projection_matrix s) (view_matrix s)) p"

subsection \<open>Visual proxies (components/path.py, agv.py, station.py)\<close>

text \<open>
  Of a Qt graphics item the model keeps the geometry: the rectangle handed to the base
  class constructor as (x, y, width, height), and the item position that \<open>setPos\<close>
  sets (the origin until then). Brushes, pens, flags, z values and tooltips are left out;
  an attribute the classes do not define is an \<open>AttributeError\<close>.
\<close>

type_synonym rect = "real \<times> real \<times> real \<times> real"

text \<open>\<open>QRectF.center()\<close>.\<close>

definition rect_center :: "rect \<Rightarrow> real \<times> real" where
  "rect_center r = (case r of (x, y, w, h) \<Rightarrow> (x + w / 2, y + h / 2))"

text \<open>Python's \<open>%\<close> on floats, for a positive modulus.\<close>

definition py_mod :: "real \<Rightarrow> real \<Rightarrow> real" where
  "py_mod x m = x - m * real_of_int \<lfloor>x / m\<rfloor>"

record QPathNode =
  node :: PathNode
  node_size :: real
  arrow_size :: real
  arrow_angle :: real
  qn_rect :: rect
  qn_pos :: "real \<times> real"
  direction_arrow :: "(real \<times> real) list"

definition arrow_polygon :: "real \<Rightarrow> real \<Rightarrow> real \<Rightarrow> (real \<times> real) list" where
  "arrow_polygon arrow_sz arrow_ang direction =
     (let angle = radians direction;
          end_x = arrow_sz * cos angle;
          end_y = - arrow_sz * sin angle;
          arrow_angle_rad = radians arrow_ang;
          arrow_p1 = (- arrow_sz / 2 * cos (angle + arrow_angle_rad),
                      arrow_sz / 2 * sin (angle + arrow_angle_rad));
          arrow_p2 = (- arrow_sz / 2 * cos (angle - arrow_angle_rad),
                      arrow_sz / 2 * sin (angle - arrow_angle_rad))
      in [(0, 0), (end_x, end_y), arrow_p1, (end_x, end_y), arrow_p2])"

definition QPathNode_update_arrow :: "real \<Rightarrow> QPathNode \<Rightarrow> QPathNode" where
  "QPathNode_update_arrow direction q =
     q\<lparr>direction_arrow := arrow_polygon (arrow_size q) (arrow_angle q) direction\<rparr>"

definition QPathNode_init :: "PathNode \<Rightarrow> QPathNode" where
  "QPathNode_init nd =
     (let (x, y) = n_position nd;
          sz = 10;
          q = \<lparr>node = nd, node_size = sz, arrow_size = 8, arrow_angle = 30,
               qn_rect = (x * 100 - sz / 2, - (y * 100) - sz / 2, sz, sz),
               qn_pos = (0, 0), direction_arrow = []\<rparr>
      in QPathNode_update_arrow (n_direction nd) q)"

definition QPathNode_set_direction :: "real \<Rightarrow> QPathNode \<Rightarrow> QPathNode" where
  "QPathNode_set_direction angle q =
     QPathNode_update_arrow angle (q\<lparr>node := (node q)\<lparr>n_direction := angle\<rparr>\<rparr>)"

record QAGV =
  agv :: AGV
  qa_id :: "int option"
  qa_position :: "real \<times> real"
  qa_direction :: real
  qa_name :: string
  qa_pos :: "real \<times> real"
  qa_color :: string

definition QAGV_init :: "AGV \<Rightarrow> QAGV" where
  "QAGV_init a =
     \<lparr>agv = a, qa_id = a_id a, qa_position = (fst (a_position a), snd (a_position a)),
      qa_direction = a_direction a, qa_name = a_name a,
      qa_pos = (fst (a_position a) * 100, - snd (a_position a) * 100),
      qa_color = ''#4287f5''\<rparr>"

record QStation =
  station :: Station
  qs_rect :: rect
  qport :: "QPathNode option"

text \<open>
  \<open>self.station_type\<close> on a \<open>QStation\<close>: the class assigns \<open>self.station\<close> and
  \<open>self.qport\<close> only, and \<open>QGraphicsRectItem\<close> has no such attribute (the station's
  type is \<open>self.station.station_type\<close>).
\<close>

definition QStation_station_type :: "QStation \<Rightarrow> error + StationType" where
  "QStation_station_type self = Inl (AttributeError ''QStation'' ''station_type'')"

text \<open>The arithmetic of \<open>_update_port\<close>: the port's position and direction.\<close>

definition port_pose :: "Station \<Rightarrow> real \<times> real \<times> real" where
  "port_pose st =
     (let angle = s_direction st * pi / 180;
          t = s_station_type st;
          (x, y) = s_position st;
          px = x + port_x t * cos angle - port_y t * sin angle;
          py = y + port_x t * sin angle + port_y t * cos angle;
          pd = py_mod (s_direction st + port_direction t) 360
      in (px, py, pd))"

text \<open>
  \<open>_update_port\<close>. The guard evaluates \<open>self.station_type\<close> before \<open>hasattr\<close> is
  called; every \<open>StationType\<close> has \<open>port_x\<close> and \<open>port_y\<close>. With a port already there,
  the last statement calls \<open>update_arrow\<close> on the \<open>QGraphicsPolygonItem\<close>, which has
  no such method.
\<close>

definition update_port :: "QStation \<Rightarrow> error option \<times> QStation" where
  "update_port self =
     (case QStation_station_type self of
        Inl e \<Rightarrow> (Some e, self)
      | Inr t \<Rightarrow>
          let (px, py, pd) = port_pose (station self) in
          (case qport self of
             None \<Rightarrow>
               (None, self\<lparr>qport := Some (QPathNode_init
                  (PathNode_init px py pd None (Some (s_name (station self) @ '' Port''))))\<rparr>)
           | Some q \<Rightarrow>
               (Some (AttributeError ''QGraphicsPolygonItem'' ''update_arrow''),
                self\<lparr>qport := Some (q\<lparr>node := (node q)\<lparr>n_position := (px, py), n_direction := pd\<rparr>,
                                      qn_pos := (px * 100, - py * 100)\<rparr>)\<rparr>)))"

text \<open>\<open>_update_tooltip\<close> formats \<open>self.station.size.width\<close>; \<open>size\<close> is a list.\<close>

definition update_tooltip :: "QStation \<Rightarrow> error option" where
  "update_tooltip self = Some (AttributeError ''list'' ''width'')"

definition QStation_rect :: "Station \<Rightarrow> rect" where
  "QStation_rect st =
     (let (x, y) = s_position st; (w, l, h) = s_size st
      in (x * 100 - l / 2 * 100, - (y * 100) - w / 2 * 100, l * 100, w * 100))"

definition QStation_init :: "Station \<Rightarrow> error + QStation" where
  "QStation_init st =
     (let self = \<lparr>station = st, qs_rect = QStation_rect st, qport = None\<rparr> in
      case QStation_station_type self of
        Inl e \<Rightarrow> Inl e
      | Inr t \<Rightarrow>
          (case update_port self of
             (Some e, self1) \<Rightarrow> Inl e
           | (None, self1) \<Rightarrow>
               (case update_tooltip self1 of Some e \<Rightarrow> Inl e | None \<Rightarrow> Inr self1)))"

definition set_direction :: "real \<Rightarrow> QStation \<Rightarrow> error option \<times> QStation" where
  "set_direction angle self =
     (let self1 = self\<lparr>station := (station self)\<lparr>s_direction := angle\<rparr>\<rparr> in
      case update_port self1 of
        (Some e, self2) \<Rightarrow> (Some e, self2)
      | (None, self2) \<Rightarrow> (update_tooltip self2, self2))"

subsection \<open>components/qclass\_holder.py\<close>

text \<open>The dicts are keyed by the entity's \<open>id\<close>, which may still be \<open>None\<close>.\<close>

record QClassHolder =
  qstations :: "(int option \<times> QStation) list"
  qagvs :: "(int option \<times> QAGV) list"
  qpaths :: "(int option \<times> unit) list"
  qpath_nodes :: "(int option \<times> QPathNode) list"

definition QClassHolder_init :: QClassHolder where
  "QClassHolder_init = \<lparr>qstations = [], qagvs = [], qpaths = [], qpath_nodes = []\<rparr>"

definition add_qstation :: "Station \<Rightarrow> QClassHolder \<Rightarrow> (error + QStation) \<times> QClassHolder" where
  "add_qstation st qh =
     (case QStation_init st of
        Inl e \<Rightarrow> (Inl e, qh)
      | Inr q \<Rightarrow> (Inr q, qh\<lparr>qstations := AList.update (s_id st) q (qstations qh)\<rparr>))"

definition add_qagv :: "AGV \<Rightarrow> QClassHolder \<Rightarrow> QAGV \<times> QClassHolder" where
  "add_qagv a qh =
     (let q = QAGV_init a in (q, qh\<lparr>qagvs := AList.update (a_id a) q (qagvs qh)\<rparr>))"

definition add_qpath_node :: "PathNode \<Rightarrow> QClassHolder \<Rightarrow> QPathNode \<times> QClassHolder" where
  "add_qpath_node nd qh =
     (let q = QPathNode_init nd
      in (q, qh\<lparr>qpath_nodes := AList.update (n_id nd) q (qpath_nodes qh)\<rparr>))"

definition get_all_qstations :: "QClassHolder \<Rightarrow> QStation list" where
  "get_all_qstations qh = map snd (qstations qh)"

definition get_all_qagvs :: "QClassHolder \<Rightarrow> QAGV list" where
  "get_all_qagvs qh = map snd (qagvs qh)"

definition get_all_qpath_nodes :: "QClassHolder \<Rightarrow> QPathNode list" where
  "get_all_qpath_nodes qh = map snd (qpath_nodes qh)"

subsection \<open>ui/realtime\_view.py: one frame\<close>

text \<open>
  The OpenGL calls of a frame are logged as commands; what they draw is outside the
  program. A \<open>Scene\<close> is everything \<open>paintGL\<close> can reach: the widget, the proxy holder
  with the backend holder it refers to, and the parent view's \<open>station_meshes\<close> (by
  station name; the mesh data is loaded by an external library).
\<close>

datatype gl_cmd =
    GlClear
  | GlLoadProjection mat
  | GlLoadModelview mat
  | GlColor3f real real real
  | GlColorNamed string
  | GlTranslatef real real real
  | GlPushMatrix
  | GlPopMatrix
  | GlDrawGrid int
  | GlDrawBox real real real
  | GlDrawCylinder real real
  | GlDrawArrowY real real
  | GlDrawArrowX real real
  | GlDrawMesh string

record Scene =
  widget :: GLWidget
  qholder :: QClassHolder
  backend :: ClassHolder
  station_meshes :: "string list"
  gl_log :: "gl_cmd list"

definition emit :: "gl_cmd list \<Rightarrow> Scene \<Rightarrow> Scene" where
  "emit cs sc = sc\<lparr>gl_log := gl_log sc @ cs\<rparr>"

definition translation :: "real \<Rightarrow> real \<Rightarrow> real \<Rightarrow> mat" where
  "translation x y z = [[1, 0, 0, x], [0, 1, 0, y], [0, 0, 1, z], [0, 0, 0, 1]]"

definition rotation_z :: "real \<Rightarrow> mat" where
  "rotation_z angle =
     [[cos angle, - sin angle, 0, 0], [sin angle, cos angle, 0, 0], [0, 0, 1, 0], [0, 0, 0, 1]]"

text \<open>
  \<open>_draw_station\<close>. Without a mesh of the station's name the box dimensions are read
  as \<open>qstation.station.size.width\<close>, and \<open>size\<close> is a list: \<open>AttributeError\<close>.
\<close>

definition draw_station :: "QStation \<Rightarrow> Scene \<Rightarrow> error option \<times> Scene" where
  "draw_station q sc =
     (let (x, y) = s_position (station q);
          model = dot_mm (identity 4) (translation x y 0);
          model = dot_mm model (rotation_z (radians (- 90)));
          model = dot_mm model (rotation_z (radians (s_direction (station q))));
          modelview = dot_mm (view_matrix (widget sc)) model;
          sc1 = emit [GlLoadModelview modelview,
                      GlColorNamed (t_color (s_station_type (station q)))] sc
      in if s_name (station q) \<in> set (station_meshes sc1)
         then
           (let sc2 = emit [GlDrawMesh (s_name (station q))] sc1 in
            case qport q of
              None \<Rightarrow> (None, sc2)
            | Some p \<Rightarrow>
                (let (px, py) = n_position (node p);
                     port_model = dot_mm (identity 4) (translation px py (1 / 10));
                     port_model = dot_mm port_model (rotation_z (radians (n_direction (node p))));
                     port_modelview = dot_mm (view_matrix (widget sc2)) port_model
                 in (None, emit [GlPushMatrix, GlLoadModelview (view_matrix (widget sc2)),
                                 GlLoadModelview port_modelview,
                                 GlColor3f (7 / 10) (7 / 10) (7 / 10),
                                 GlDrawCylinder (1 / 10) (1 / 10),
                                 GlColor3f 0 (7 / 10) 0,
                                 GlTranslatef 0 0 (1 / 10 + 1 / 100),
                                 GlDrawArrowX (15 / 100) (5 / 100),
                                 GlPopMatrix] sc2)))
         else (Some (AttributeError ''list'' ''width''), sc1))"

definition draw_path_node :: "QPathNode \<Rightarrow> Scene \<Rightarrow> error option \<times> Scene" where
  "draw_path_node q sc =
     (let (x, y) = n_position (node q);
          model = dot_mm (identity 4) (translation x y (1 / 10));
          model = dot_mm model (rotation_z (radians (n_direction (node q))));
          modelview = dot_mm (view_matrix (widget sc)) model
      in (None, emit [GlLoadModelview modelview,
                      GlColor3f (4 / 10) (4 / 10) (4 / 10),
                      GlDrawCylinder (1 / 10) (1 / 10),
                      GlColor3f 1 0 0,
                      GlTranslatef 0 0 (1 / 10 + 1 / 100),
                      GlDrawArrowX (15 / 100) (5 / 100)] sc))"

text \<open>
  The AGV part of \<open>paintGL\<close>'s loop body, then \<open>_draw_agv\<close>: it is handed the
  \<open>QAGV\<close> proxy and reads \<open>agv.size\<close>, which the proxy does not have.
\<close>

definition draw_agv :: "QAGV \<Rightarrow> Scene \<Rightarrow> error option \<times> Scene" where
  "draw_agv q sc = (Some (AttributeError ''QAGV'' ''size''), sc)"

definition paint_agv :: "QAGV \<Rightarrow> Scene \<Rightarrow> error option \<times> Scene" where
  "paint_agv q sc =
     (let (x, y) = qa_position q;
          model = dot_mm (identity 4) (translation x y (1 / 10));
          model = dot_mm model (rotation_z (radians (qa_direction q)));
          modelview = dot_mm (view_matrix (widget sc)) model
      in draw_agv q (emit [GlLoadModelview modelview] sc))"

text \<open>A \<open>for\<close> loop over the proxies: the first exception ends the frame.\<close>

fun for_each :: "('a \<Rightarrow> Scene \<Rightarrow> error option \<times> Scene) \<Rightarrow> 'a list \<Rightarrow> Scene \<Rightarrow> error option \<times> Scene" where
  "for_each f [] sc = (None, sc)"
| "for_each f (x # xs) sc =
     (case f x sc of
        (Some e, sc1) \<Rightarrow> (Some e, sc1)
      | (None, sc1) \<Rightarrow> for_each f xs sc1)"

definition paintGL :: "Scene \<Rightarrow> error option \<times> Scene" where
  "paintGL sc =
     (let sc1 = emit [GlClear] sc;
          sc2 = sc1\<lparr>widget := paintGL_view (widget sc1)\<rparr>;
          sc3 = emit [GlLoadProjection (transpose (projection_matrix (widget sc2))),
                      GlLoadModelview (transpose (view_matrix (widget sc2))),
                      GlDrawGrid (gl_map_size (widget sc2))] sc2
      in case for_each draw_station (get_all_qstations (qholder sc3)) sc3 of
           (Some e, sc4) \<Rightarrow> (Some e, sc4)
         | (None, sc4) \<Rightarrow>
             (case for_each draw_path_node (get_all_qpath_nodes (qholder sc4)) sc4 of
                (Some e, sc5) \<Rightarrow> (Some e, sc5)
              | (None, sc5) \<Rightarrow> for_each paint_agv (get_all_qagvs (qholder sc5)) sc5))"

text \<open>Everything of a scene but the log of OpenGL calls.\<close>

definition store_of :: "Scene \<Rightarrow> GLWidget \<times> ClassHolder \<times> QClassHolder \<times> string list" where
  "store_of sc = (widget sc, backend sc, qholder sc, station_meshes sc)"

subsection \<open>ui/file\_management.py\<close>

text \<open>
  The persisted document, past its XML syntax: each element's text is kept as the value
  it is written from and parsed to (\<open>str\<close> and \<open>float\<close>, \<open>str\<close> and \<open>int\<close> are
  inverse on numbers). An id text is \<open>None\<close> when \<open>str(None)\<close> was written; \<open>int\<close>
  raises \<open>ValueError\<close> on it.
\<close>

record doc_station_type =
  dt_name :: string
  dt_color :: string
  dt_description :: string

record doc_station =
  ds_id :: "int option"
  ds_name :: string
  ds_x :: real
  ds_y :: real
  ds_type :: string
  ds_direction :: real
  ds_width :: real
  ds_length :: real
  ds_height :: real
  ds_mesh_path :: "string option"

record doc_node =
  dn_id :: "int option"
  dn_x :: real
  dn_y :: real
  dn_direction :: real

record doc_agv =
  da_id :: "int option"
  da_name :: string
  da_x :: real
  da_y :: real
  da_direction :: real
  da_status :: string
  da_width :: real
  da_length :: real
  da_height :: real
  da_latest_node_id :: "int option"

record document =
  d_map_size :: int
  d_station_types :: "doc_station_type list"
  d_stations :: "doc_station list"
  d_path_nodes :: "doc_node list"
  d_agvs :: "doc_agv list"

text \<open>What the exporter and the loader reach through \<open>map_editor\<close>.\<close>

record MapEditor =
  map_size :: int
  station_manager :: StationTypeManager
  class_holder :: ClassHolder
  qclass_holder :: QClassHolder

definition MapEditor_init :: MapEditor where
  "MapEditor_init =
     \<lparr>map_size = 10, station_manager = StationTypeManager_init,
      class_holder = ClassHolder_init, qclass_holder = QClassHolder_init\<rparr>"

definition py_int :: "int option \<Rightarrow> error + int" where
  "py_int text = (case text of None \<Rightarrow> Inl (ValueError ''invalid literal for int()'') | Some i \<Rightarrow> Inr i)"

text \<open>A loop that builds a list and stops at the first exception.\<close>

fun map_raise :: "('a \<Rightarrow> error + 'b) \<Rightarrow> 'a list \<Rightarrow> error + 'b list" where
  "map_raise f [] = Inr []"
| "map_raise f (x # xs) =
     (case f x of
        Inl e \<Rightarrow> Inl e
      | Inr y \<Rightarrow> (case map_raise f xs of Inl e \<Rightarrow> Inl e | Inr ys \<Rightarrow> Inr (y # ys)))"

text \<open>
  The body of \<open>save_map\<close>'s station loop reads \<open>station.size.width\<close> after the first
  six elements; \<open>size\<close> is a list. The body of its AGV loop reads \<open>agv.latest_node\<close>
  after the size; \<open>AGV\<close> has no such attribute.
\<close>

definition export_station :: "Station \<Rightarrow> error + doc_station" where
  "export_station st = Inl (AttributeError ''list'' ''width'')"

definition export_node :: "PathNode \<Rightarrow> doc_node" where
  "export_node nd =
     \<lparr>dn_id = n_id nd, dn_x = fst (n_position nd), dn_y = snd (n_position nd),
      dn_direction = n_direction nd\<rparr>"

definition export_agv :: "AGV \<Rightarrow> error + doc_agv" where
  "export_agv a = Inl (AttributeError ''AGV'' ''latest_node'')"

definition save_map :: "MapEditor \<Rightarrow> error + document" where
  "save_map ed =
     (let types = map (\<lambda>t. \<lparr>dt_name = t_name t, dt_color = t_color t,
                             dt_description = t_description t\<rparr>)
                      (map snd (station_manager ed))
      in case map_raise export_station (get_all_stations (class_holder ed)) of
           Inl e \<Rightarrow> Inl e
         | Inr sts \<Rightarrow>
             (let nodes = map export_node (get_all_path_nodes (class_holder ed))
              in case map_raise export_agv (get_all_agvs (class_holder ed)) of
                   Inl e \<Rightarrow> Inl e
                 | Inr ags \<Rightarrow>
                     Inr \<lparr>d_map_size = map_size ed, d_station_types = types,
                          d_stations = sts, d_path_nodes = nodes, d_agvs = ags\<rparr>))"

definition clear_existing_data :: "MapEditor \<Rightarrow> MapEditor" where
  "clear_existing_data ed =
     ed\<lparr>class_holder :=
           (class_holder ed)\<lparr>stations := [], stations_by_name := [], agvs := [],
                              agvs_by_name := [], path_nodes := [],
                              station_id_manager := reset (station_id_manager (class_holder ed)),
                              agv_id_manager := reset (agv_id_manager (class_holder ed)),
                              path_node_id_manager := reset (path_node_id_manager (class_holder ed))\<rparr>,
         qclass_holder :=
           (qclass_holder ed)\<lparr>qstations := [], qagvs := [], qpath_nodes := []\<rparr>\<rparr>"

text \<open>
  The loader calls \<open>add_path_node\<close>, \<open>add_station\<close> and \<open>add_agv\<close> on the proxy
  holder, whose methods are \<open>add_qpath_node\<close>, \<open>add_qstation\<close> and \<open>add_qagv\<close>; it
  assigns \<open>station.size.mesh_path\<close> on the list \<open>size\<close> and calls
  \<open>agv.set_latest_node\<close>, which \<open>AGV\<close> does not define.
\<close>

definition QClassHolder_add_path_node :: "PathNode \<Rightarrow> QClassHolder \<Rightarrow> error + QPathNode \<times> QClassHolder" where
  "QClassHolder_add_path_node nd qh = Inl (AttributeError ''QClassHolder'' ''add_path_node'')"

definition QClassHolder_add_station :: "Station \<Rightarrow> QClassHolder \<Rightarrow> error + QStation \<times> QClassHolder" where
  "QClassHolder_add_station st qh = Inl (AttributeError ''QClassHolder'' ''add_station'')"

definition QClassHolder_add_agv :: "AGV \<Rightarrow> QClassHolder \<Rightarrow> error + QAGV \<times> QClassHolder" where
  "QClassHolder_add_agv a qh = Inl (AttributeError ''QClassHolder'' ''add_agv'')"

definition set_size_mesh_path :: "string option \<Rightarrow> Station \<Rightarrow> error + Station" where
  "set_size_mesh_path p st = Inl (AttributeError ''list'' ''mesh_path'')"

definition set_latest_node :: "PathNode \<Rightarrow> AGV \<Rightarrow> error + AGV" where
  "set_latest_node nd a = Inl (AttributeError ''AGV'' ''set_latest_node'')"

text \<open>
  The path node loop. \<open>PathNode(x, y, node_id)\<close> passes the parsed id as the third
  positional parameter, \<open>direction\<close>, and leaves \<open>id\<close> at \<open>None\<close>, so the backend
  holder draws a fresh id. \<open>node_dict\<close> is threaded through for the AGV loop.
\<close>

fun load_nodes :: "doc_node list \<Rightarrow> (int \<times> PathNode) list \<Rightarrow> MapEditor
    \<Rightarrow> (error + (int \<times> PathNode) list) \<times> MapEditor" where
  "load_nodes [] node_dict ed = (Inr node_dict, ed)"
| "load_nodes (node_elem # rest) node_dict ed =
     (case py_int (dn_id node_elem) of
        Inl e \<Rightarrow> (Inl e, ed)
      | Inr node_id \<Rightarrow>
          (let nd = PathNode_init (dn_x node_elem) (dn_y node_elem) (real_of_int node_id) None None;
               (nd1, h1) = add_path_node nd (class_holder ed);
               ed1 = ed\<lparr>class_holder := h1\<rparr>
           in case QClassHolder_add_path_node nd1 (qclass_holder ed1) of
                Inl e \<Rightarrow> (Inl e, ed1)
              | Inr (qnode, qh1) \<Rightarrow>
                  (let nd2 = node (QPathNode_set_direction (dn_direction node_elem) qnode);
                       ed2 = ed1\<lparr>qclass_holder := qh1\<rparr>
                   in load_nodes rest (AList.update node_id nd2 node_dict) ed2)))"

fun load_stations :: "doc_station list \<Rightarrow> MapEditor \<Rightarrow> error option \<times> MapEditor" where
  "load_stations [] ed = (None, ed)"
| "load_stations (station_elem # rest) ed =
     (case py_int (ds_id station_elem) of
        Inl e \<Rightarrow> (Some e, ed)
      | Inr station_id \<Rightarrow>
          (case get_type (station_manager ed) (ds_type station_elem) of
             None \<Rightarrow> load_stations rest ed
           | Some station_type \<Rightarrow>
               (let st = Station_init (ds_x station_elem) (ds_y station_elem) station_type
                           (ds_name station_elem) (Some station_id);
                    st = st\<lparr>s_direction := ds_direction station_elem\<rparr>;
                    st = set_3d_size (ds_width station_elem) (ds_length station_elem)
                           (ds_height station_elem) st
                in case set_size_mesh_path (ds_mesh_path station_elem) st of
                     Inl e \<Rightarrow> (Some e, ed)
                   | Inr st1 \<Rightarrow>
                       (case QClassHolder_add_station st1 (qclass_holder ed) of
                          Inl e \<Rightarrow> (Some e, ed)
                        | Inr (qstation, qh1) \<Rightarrow>
                            load_stations rest (ed\<lparr>qclass_holder := qh1\<rparr>)))))"

fun load_agvs :: "doc_agv list \<Rightarrow> (int \<times> PathNode) list \<Rightarrow> MapEditor
    \<Rightarrow> error option \<times> MapEditor" where
  "load_agvs [] node_dict ed = (None, ed)"
| "load_agvs (agv_elem # rest) node_dict ed =
     (case py_int (da_id agv_elem) of
        Inl e \<Rightarrow> (Some e, ed)
      | Inr agv_id \<Rightarrow>
          (let a = AGV_init (da_name agv_elem) (da_x agv_elem, da_y agv_elem)
                     (da_width agv_elem, da_length agv_elem, da_height agv_elem);
               a = a\<lparr>a_id := Some agv_id, a_direction := da_direction agv_elem,
                      a_status := da_status agv_elem\<rparr>;
               latest = (case da_latest_node_id agv_elem of
                           None \<Rightarrow> Inr a
                         | Some node_id \<Rightarrow>
                             (case map_of node_dict node_id of
                                None \<Rightarrow> Inr a
                              | Some nd \<Rightarrow> set_latest_node nd a))
           in case latest of
                Inl e \<Rightarrow> (Some e, ed)
              | Inr a1 \<Rightarrow>
                  (case QClassHolder_add_agv a1 (qclass_holder ed) of
                     Inl e \<Rightarrow> (Some e, ed)
                   | Inr (qagv, qh1) \<Rightarrow> load_agvs rest node_dict (ed\<lparr>qclass_holder := qh1\<rparr>))))"

definition load_map :: "document \<Rightarrow> MapEditor \<Rightarrow> error option \<times> MapEditor" where
  "load_map doc ed =
     (let ed1 = clear_existing_data ed;
          ed2 = ed1\<lparr>map_size := d_map_size doc\<rparr>;
          ed3 = ed2\<lparr>station_manager :=
                  fold (\<lambda>type_elem types.
                          snd (add_type (StationType_init (dt_name type_elem) (dt_color type_elem)
                                           (dt_description type_elem)) types))
                       (d_station_types doc) (station_manager ed2)\<rparr>
      in case load_nodes (d_path_nodes doc) [] ed3 of
           (Inl e, ed4) \<Rightarrow> (Some e, ed4)
         | (Inr node_dict, ed4) \<Rightarrow>
             (case load_stations (d_stations doc) ed4 of
                (Some e, ed5) \<Rightarrow> (Some e, ed5)
              | (None, ed5) \<Rightarrow> load_agvs (d_agvs doc) node_dict ed5))"

text \<open>
  An editor whose store holds one path node: two nodes are added (ids 1 and 2) and the
  first is deleted, so the node left has id 2, position (1, 2) and direction 90.
\<close>

definition one_node_editor :: MapEditor where
  "one_node_editor =
     MapEditor_init\<lparr>class_holder :=
       snd (delete_path_node 1
         (snd (add_path_node (PathNode_init 1 2 90 None None)
           (snd (add_path_node (PathNode_init 0 0 0 None None) ClassHolder_init)))))\<rparr>"

section \<open>Identifier allocator\<close>

lemma get_new_ids_from:
  "fst (get_new_ids n m) = map (\<lambda>k. id_counter m + int k) [1..<Suc n]"
proof (induction n arbitrary: m)
  case 0
  show ?case by simp
next
  case (Suc n)
  have step: "fst (get_new_ids n (snd (get_new_id m)))
              = map (\<lambda>k. id_counter m + 1 + int k) [1..<Suc n]"
    using Suc.IH [of "snd (get_new_id m)"] by (simp add: get_new_id_def Let_def)
  have shift: "map (\<lambda>k. id_counter m + 1 + int k) [1..<Suc n]
               = map (\<lambda>k. id_counter m + int k) [2..<Suc (Suc n)]"
  proof -
    have "[2..<Suc (Suc n)] = map Suc [1..<Suc n]"
      by (metis One_nat_def Suc_1 map_Suc_upt)
    then show ?thesis by (simp add: comp_def)
  qed
  have unfold: "[1..<Suc (Suc n)] = 1 # [2..<Suc (Suc n)]"
    by (simp add: upt_rec numeral_2_eq_2)
  show ?case
    using step shift unfold
    by (simp add: get_new_id_def Let_def split_beta del: upt_Suc)
qed

text \<open>
  C8. From a fresh allocator, \<open>n\<close> calls of \<open>get_new_id\<close> return 1, 2, ..., n in this
  order (so they are distinct and consecutive); every call returns the previous counter
  value plus one and stores it; \<open>reset\<close> sets the counter to 0, so the next call
  returns 1 again.
\<close>

theorem id_allocator_consecutive:
  "fst (get_new_ids n IDManager_init) = map int [1..<Suc n]
   \<and> distinct (fst (get_new_ids n IDManager_init))
   \<and> fst (get_new_id m) = id_counter m + 1
   \<and> id_counter (snd (get_new_id m)) = id_counter m + 1
   \<and> id_counter (reset m) = 0
   \<and> fst (get_new_id (reset m)) = 1"
proof -
  have a: "fst (get_new_ids n IDManager_init) = map int [1..<Suc n]"
    by (simp add: get_new_ids_from IDManager_init_def del: upt_Suc)
  have b: "distinct (map int [1..<Suc n])"
    by (simp add: distinct_map inj_on_def del: upt_Suc)
  show ?thesis
    using a b by (simp add: get_new_id_def reset_def Let_def del: upt_Suc)
qed

section \<open>Entity store: add, lookup, delete\<close>














text \<open>
  C2. The name index does not stay consistent with the id index when two stations share
  a name. Evaluated on the source: station A named \<open>S\<close> is added (id 1), station B
  named \<open>S\<close> is added (id 2, the name index now maps \<open>S\<close> to B), then
  \<open>delete_station(1)\<close> pops the key \<open>S\<close>. Afterwards B is still in the id map under
  2, but \<open>get_station_by_name(S)\<close> finds nothing.
\<close>

theorem name_index_lost_after_delete:
  "(let (a, h1) = add_station (Station_init 0 0 Loading ''S'' None) ClassHolder_init;
        (b, h2) = add_station (Station_init 1 1 Loading ''S'' None) h1;
        h3 = snd (delete_station 1 h2)
    in s_id a = Some 1 \<and> s_name b = ''S'' \<and> get_station_by_id h3 2 = Some b
       \<and> get_station_by_name h3 ''S'' = None)"
  by (simp add: add_station_def delete_station_def get_station_by_id_def
      get_station_by_name_def Station_init_def ClassHolder_init_def IDManager_init_def
      get_new_id_def Let_def)




section \<open>Camera: unprojection and wheel zoom\<close>

lemma s2w_init: "screen_to_world (GLWidget_init 800 600) 400 300 = Inr [0, 0, - 2]"
  by (simp add: screen_to_world_def GLWidget_init_def dot_mm_def dot_mv_def dot_vv_def
      identity_def upt_rec linalg_inv_def cofactor_def Let_def)


lemma tan_fov_pos: "0 < tan (radians 45 / 2)"
proof -
  have e: "radians 45 / 2 = pi / 8" by (simp add: radians_def)
  have "0 < tan (pi / 8)"
    by (rule tan_gt_zero) (simp_all add: pi_gt_zero)
  then show ?thesis unfolding e .
qed

lemma view_flat:
  "create_view_matrix (s\<lparr>camera_rotation := (0, 0, 0)\<rparr>)
   = (let (px, py, pz) = camera_position s in
      [[1, 0, 0, - px], [0, 1, 0, - py], [0, 0, 1, - pz - camera_distance s], [0, 0, 0, 1]])"
  by (simp add: create_view_matrix_def radians_def dot_mm_def dot_vv_def identity_def upt_rec
      Let_def split_beta)


lemma det_sparse:
  "det [[a, 0, 0, b], [0, c, 0, d], [0, 0, e, g], [0, 0, k, h]] = a * c * (e * h - g * k)"
  by (simp add: upt_rec algebra_simps)

lemma inv_sparse:
  assumes "a \<noteq> 0" "c \<noteq> 0" "e * h - g * k \<noteq> 0"
  shows "linalg_inv [[a, 0, 0, b], [0, c, 0, d], [0, 0, e, g], [0, 0, k, h]]
         = Inr [[1 / a, 0, b * k / (a * (e * h - g * k)), - (b * e) / (a * (e * h - g * k))],
                [0, 1 / c, d * k / (c * (e * h - g * k)), - (d * e) / (c * (e * h - g * k))],
                [0, 0, h / (e * h - g * k), - g / (e * h - g * k)],
                [0, 0, - k / (e * h - g * k), e / (e * h - g * k)]]"
proof -
  have D: "det [[a, 0, 0, b], [0, c, 0, d], [0, 0, e, g], [0, 0, k, h]] = a * c * (e * h - g * k)"
    by (rule det_sparse)
  have nz: "a * c * (e * h - g * k) \<noteq> 0" using assms by simp
  show ?thesis
    unfolding linalg_inv_def D
    using assms nz
    by (simp add: cofactor_def upt_rec) (simp add: field_simps)?
qed


lemma s2w_flat_d:
  assumes "d + 49 / 10 \<noteq> 0"
  shows "screen_to_world (paintGL_view (level_widget\<lparr>camera_distance := d\<rparr>)) 400 300
         = Inr [- 5 * (1 - (d + 49 / 10)), - 5 * (1 - (d + 49 / 10)),
                (d + 49 / 10) * (1 - (d + 49 / 10))]"
proof -
  define f where "f = 1 / tan (radians 45 / 2)"
  have fnz: "f \<noteq> 0" using tan_fov_pos by (simp add: f_def)
  let ?S = "paintGL_view (level_widget\<lparr>camera_distance := d\<rparr>)"
  have P: "projection_matrix ?S
           = [[f * 3 / 4, 0, 0, 0], [0, f, 0, 0], [0, 0, - 1001 / 999, - 200 / 999], [0, 0, - 1, 0]]"
    by (simp add: paintGL_view_def level_widget_def resizeGL_def perspective_matrix_def f_def Let_def)
  have V: "view_matrix ?S = [[1, 0, 0, 5], [0, 1, 0, 5], [0, 0, 1, - 5 - d], [0, 0, 0, 1]]"
    using view_flat [of "(GLWidget_init 800 600)\<lparr>projection_matrix := perspective_matrix 45 (800 / 600) (1 / 10) 100, camera_distance := d\<rparr>"]
    by (simp add: paintGL_view_def level_widget_def resizeGL_def GLWidget_init_def)
  have VP: "dot_mm (projection_matrix ?S) (view_matrix ?S)
            = [[f * 3 / 4, 0, 0, f * 3 / 4 * 5], [0, f, 0, f * 5],
               [0, 0, - 1001 / 999, - 1001 / 999 * (- 5 - d) + - 200 / 999], [0, 0, - 1, 5 + d]]"
    unfolding P V by (simp add: dot_mm_def dot_vv_def)
  have Dn: "(- 1001 / 999) * (5 + d) - (- 1001 / 999 * (- 5 - d) + - 200 / 999) * (- 1) = (- 200 / 999 :: real)"
    by (simp add: algebra_simps)
  have INV: "linalg_inv (dot_mm (projection_matrix ?S) (view_matrix ?S))
             = Inr [[1 / (f * 3 / 4), 0, f * 3 / 4 * 5 * (- 1) / (f * 3 / 4 * (- 200 / 999)),
                      - (f * 3 / 4 * 5 * (- 1001 / 999)) / (f * 3 / 4 * (- 200 / 999))],
                    [0, 1 / f, f * 5 * (- 1) / (f * (- 200 / 999)),
                      - (f * 5 * (- 1001 / 999)) / (f * (- 200 / 999))],
                    [0, 0, (5 + d) / (- 200 / 999),
                      - (- 1001 / 999 * (- 5 - d) + - 200 / 999) / (- 200 / 999)],
                    [0, 0, - (- 1) / (- 200 / 999), (- 1001 / 999) / (- 200 / 999)]]"
    unfolding VP
    using inv_sparse [of "f * 3 / 4" f "- 1001 / 999" "5 + d"
        "- 1001 / 999 * (- 5 - d) + - 200 / 999" "- 1" "f * 3 / 4 * 5" "f * 5"] fnz
    unfolding Dn by simp
  have W: "widget_width ?S = 800" "widget_height ?S = 600"
    by (simp_all add: paintGL_view_def level_widget_def resizeGL_def GLWidget_init_def)
  define M where "M = [[1 / (f * 3 / 4), 0, f * 3 / 4 * 5 * (- 1) / (f * 3 / 4 * (- 200 / 999)),
                      - (f * 3 / 4 * 5 * (- 1001 / 999)) / (f * 3 / 4 * (- 200 / 999))],
                    [0, 1 / f, f * 5 * (- 1) / (f * (- 200 / 999)),
                      - (f * 5 * (- 1001 / 999)) / (f * (- 200 / 999))],
                    [0, 0, (5 + d) / (- 200 / 999),
                      - (- 1001 / 999 * (- 5 - d) + - 200 / 999) / (- 200 / 999)],
                    [0, 0, - (- 1) / (- 200 / 999), (- 1001 / 999) / (- 200 / 999)]]"
  have INV': "linalg_inv (dot_mm (projection_matrix ?S) (view_matrix ?S)) = Inr M"
    unfolding M_def by (rule INV)
  have R: "dot_mv M [0, 0, - 1, 1] = [- 50, - 50, 10 * (d + 49 / 10), 10]"
    unfolding M_def using fnz by (simp add: dot_mv_def dot_vv_def field_simps)
  show ?thesis
    using assms
    by (simp add: screen_to_world_def W INV' R Let_def) (simp add: field_simps)?
qed


lemma screen_to_world_distance:
  "screen_to_world (s\<lparr>camera_distance := d\<rparr>) x y = screen_to_world s x y"
  by (simp add: screen_to_world_def)

lemma wheelEvent_cases:
  "snd (wheelEvent delta s) = s
   \<or> (\<exists>nd. min_zoom s \<le> nd \<and> nd \<le> max_zoom s
        \<and> snd (wheelEvent delta s) = s\<lparr>camera_distance := nd\<rparr>)"
  by (auto simp: wheelEvent_def Let_def screen_to_world_distance split: sum.splits prod.splits)


lemma wheelEvent_keeps:
  "min_zoom (snd (wheelEvent delta s)) = min_zoom s
   \<and> max_zoom (snd (wheelEvent delta s)) = max_zoom s
   \<and> zoom_speed (snd (wheelEvent delta s)) = zoom_speed s
   \<and> view_matrix (snd (wheelEvent delta s)) = view_matrix s
   \<and> projection_matrix (snd (wheelEvent delta s)) = projection_matrix s
   \<and> camera_position (snd (wheelEvent delta s)) = camera_position s
   \<and> camera_rotation (snd (wheelEvent delta s)) = camera_rotation s"
  using wheelEvent_cases [of delta s] by auto

lemma wheelEvent_in_range:
  assumes "min_zoom s \<le> camera_distance s" "camera_distance s \<le> max_zoom s"
  shows "min_zoom s \<le> camera_distance (snd (wheelEvent delta s))
         \<and> camera_distance (snd (wheelEvent delta s)) \<le> max_zoom s"
  using wheelEvent_cases [of delta s] assms by auto

lemma gl_step_in_range:
  assumes "min_zoom s \<le> camera_distance s" "camera_distance s \<le> max_zoom s"
  shows "min_zoom (gl_step e s) = min_zoom s \<and> max_zoom (gl_step e s) = max_zoom s
         \<and> min_zoom s \<le> camera_distance (gl_step e s)
         \<and> camera_distance (gl_step e s) \<le> max_zoom s"
proof (cases e)
  case (Wheel delta)
  then show ?thesis
    using wheelEvent_in_range [OF assms, of delta] wheelEvent_keeps [of delta s] by simp
next
  case Paint
  then show ?thesis using assms by (simp add: paintGL_view_def)
qed

lemma gl_run_in_range:
  "min_zoom s \<le> camera_distance s \<Longrightarrow> camera_distance s \<le> max_zoom s \<Longrightarrow>
   min_zoom (gl_run es s) = min_zoom s \<and> max_zoom (gl_run es s) = max_zoom s
   \<and> min_zoom s \<le> camera_distance (gl_run es s)
   \<and> camera_distance (gl_run es s) \<le> max_zoom s"
proof (induction es arbitrary: s)
  case Nil
  then show ?case by simp
next
  case (Cons e es)
  have st: "min_zoom (gl_step e s) = min_zoom s \<and> max_zoom (gl_step e s) = max_zoom s
         \<and> min_zoom s \<le> camera_distance (gl_step e s)
         \<and> camera_distance (gl_step e s) \<le> max_zoom s"
    using gl_step_in_range [OF Cons.prems] .
  then have "min_zoom (gl_step e s) \<le> camera_distance (gl_step e s)"
    and "camera_distance (gl_step e s) \<le> max_zoom (gl_step e s)"
    by simp_all
  from Cons.IH [OF this] st show ?case by simp
qed

lemma wheelEvent_rejected:
  assumes "zoom_speed s = 11 / 10"
    and "(if 0 < delta then camera_distance s / (11 / 10) else camera_distance s * (11 / 10)) < min_zoom s
         \<or> max_zoom s < (if 0 < delta then camera_distance s / (11 / 10) else camera_distance s * (11 / 10))"
  shows "wheelEvent delta s = (None, s)"
  unfolding wheelEvent_def Let_def assms(1) using assms(2) by auto

lemma wheelEvent_accepted:
  assumes "zoom_speed s = 11 / 10"
    and "min_zoom s \<le> (if 0 < delta then camera_distance s / (11 / 10) else camera_distance s * (11 / 10))"
    and "(if 0 < delta then camera_distance s / (11 / 10) else camera_distance s * (11 / 10)) \<le> max_zoom s"
    and "screen_to_world s (real_of_int (widget_width s) / 2) (real_of_int (widget_height s) / 2) = Inr p"
  shows "wheelEvent delta s =
         (None, s\<lparr>camera_distance :=
              (if 0 < delta then camera_distance s / (11 / 10) else camera_distance s * (11 / 10))\<rparr>)"
  unfolding wheelEvent_def Let_def assms(1) using assms(2-)
  by (auto simp: screen_to_world_distance split: prod.splits)

text \<open>
  C6. With \<open>min_zoom = 2\<close>, \<open>max_zoom = 50\<close> and \<open>zoom_speed = 1.1\<close>, from any distance
  in [2, 50] (the initial 15 is one) the distance stays in [2, 50] after every sequence of
  wheel events and repaints. One wheel event computes \<open>distance / 1.1\<close> for a positive
  wheel delta (zoom in) and \<open>distance * 1.1\<close> otherwise (zoom out); when that leaves
  [2, 50] the event changes nothing, and when it is in range and the screen centre can be
  unprojected, it becomes the distance.
\<close>

theorem zoom_distance_bounds:
  assumes "min_zoom s = 2" "max_zoom s = 50" "zoom_speed s = 11 / 10"
    and "2 \<le> camera_distance s" "camera_distance s \<le> 50"
  shows "2 \<le> camera_distance (gl_run es s) \<and> camera_distance (gl_run es s) \<le> 50
    \<and> (let new_distance = (if 0 < delta then camera_distance s / (11 / 10)
                             else camera_distance s * (11 / 10))
       in (new_distance < 2 \<or> 50 < new_distance \<longrightarrow> wheelEvent delta s = (None, s))
          \<and> (2 \<le> new_distance \<and> new_distance \<le> 50 \<longrightarrow>
               (\<forall>p. screen_to_world s (real_of_int (widget_width s) / 2)
                                        (real_of_int (widget_height s) / 2) = Inr p \<longrightarrow>
                    wheelEvent delta s = (None, s\<lparr>camera_distance := new_distance\<rparr>))))"
proof -
  have r: "2 \<le> camera_distance (gl_run es s) \<and> camera_distance (gl_run es s) \<le> 50"
    using gl_run_in_range [of s es] assms by simp
  show ?thesis
    unfolding Let_def
    using r wheelEvent_rejected [of s delta] wheelEvent_accepted [of s delta] assms
    by (intro conjI impI allI) auto
qed

text \<open>
  C6 at concrete inputs. At the initial state one zoom-in tick sets the distance to 15 / 1.1; at distance 2.1 a
  zoom-in tick, which would give 2.1 / 1.1 < 2, leaves the widget as it is.
\<close>

theorem zoom_distance_bounds_witness:
  "(let s = GLWidget_init 800 600; t = s\<lparr>camera_distance := 21 / 10\<rparr>
    in min_zoom s = 2 \<and> max_zoom s = 50 \<and> zoom_speed s = 11 / 10 \<and> camera_distance s = 15
       \<and> camera_distance (gl_run [Wheel 120, Paint, Wheel (- 120)] s) \<le> 50
       \<and> 2 \<le> camera_distance (gl_run [Wheel 120, Paint, Wheel (- 120)] s)
       \<and> wheelEvent 120 s = (None, s\<lparr>camera_distance := 150 / 11\<rparr>)
       \<and> wheelEvent 120 t = (None, t))"
proof -
  let ?s = "GLWidget_init 800 600"
  let ?t = "?s\<lparr>camera_distance := 21 / 10\<rparr>"
  have hs: "min_zoom ?s = 2" "max_zoom ?s = 50" "zoom_speed ?s = 11 / 10"
    "2 \<le> camera_distance ?s" "camera_distance ?s \<le> 50" "camera_distance ?s = 15"
    by (simp_all add: GLWidget_init_def)
  have ht: "min_zoom ?t = 2" "max_zoom ?t = 50" "zoom_speed ?t = 11 / 10"
    "2 \<le> camera_distance ?t" "camera_distance ?t \<le> 50"
    by (simp_all add: GLWidget_init_def)
  have w: "widget_width ?s = 800" "widget_height ?s = 600"
    by (simp_all add: GLWidget_init_def)
  have p: "screen_to_world ?s (real_of_int (widget_width ?s) / 2)
             (real_of_int (widget_height ?s) / 2) = Inr [0, 0, - 2]"
    unfolding w using s2w_init by simp
  have a: "2 \<le> camera_distance (gl_run [Wheel 120, Paint, Wheel (- 120)] ?s)
           \<and> camera_distance (gl_run [Wheel 120, Paint, Wheel (- 120)] ?s) \<le> 50"
    using zoom_distance_bounds [OF hs(1-5), of "[Wheel 120, Paint, Wheel (- 120)]" 120] by simp
  have b: "wheelEvent 120 ?s = (None, ?s\<lparr>camera_distance := 150 / 11\<rparr>)"
    using zoom_distance_bounds [OF hs(1-5), of "[]" 120] p hs(6) by (simp add: Let_def)
  have c: "wheelEvent 120 ?t = (None, ?t)"
    using zoom_distance_bounds [OF ht, of "[]" 120] by (simp add: Let_def)
  show ?thesis
    unfolding Let_def using hs a b c by simp
qed


lemma create_view_matrix_view:
  "create_view_matrix (s\<lparr>view_matrix := m\<rparr>) = create_view_matrix s"
  by (simp add: create_view_matrix_def)

lemma level_15: "level_widget\<lparr>camera_distance := 15\<rparr> = level_widget"
  by (simp add: level_widget_def resizeGL_def GLWidget_init_def)

text \<open>
  C7. \<open>_screen_to_world\<close> does not return a point of the plane z = 0. On the widget as
  constructed (identity matrices) the screen centre gives (0, 0, -2); on the repainted
  \<open>level_widget\<close> it gives (94.5, 94.5, -376.11). The step commented "Project point
  onto the plane (z=0)" multiplies the unprojected near-plane point \<open>p\<close> by \<open>1 - p\<^sub>z\<close>.
\<close>

theorem screen_to_world_leaves_ground:
  "screen_to_world (GLWidget_init 800 600) 400 300 = Inr [0, 0, - 2]
   \<and> screen_to_world (paintGL_view level_widget) 400 300 = Inr [189 / 2, 189 / 2, - 37611 / 100]"
proof -
  have "screen_to_world (paintGL_view level_widget) 400 300 = Inr [189 / 2, 189 / 2, - 37611 / 100]"
    using s2w_flat_d [of 15] unfolding level_15 by simp
  then show ?thesis using s2w_init by simp
qed

lemma cos45: "cos (radians 45) = sqrt 2 / 2"
proof -
  have "radians 45 = pi / 4" by (simp add: radians_def)
  then show ?thesis by (simp only: cos_45)
qed

lemma sin45: "sin (radians 45) = sqrt 2 / 2"
proof -
  have "radians 45 = pi / 4" by (simp add: radians_def)
  then show ?thesis by (simp only: sin_45)
qed

lemma view_tilted:
  assumes "camera_rotation s = (45, 45, 0)" "camera_position s = (- 5, - 5, 5)"
  shows "create_view_matrix s
   = [[sqrt 2 / 2, 0, sqrt 2 / 2, 5 - camera_distance s * (sqrt 2 / 2)],
      [1 / 2, sqrt 2 / 2, - 1 / 2, camera_distance s / 2 + 5],
      [- 1 / 2, sqrt 2 / 2, 1 / 2, - (camera_distance s / 2) - 5],
      [0, 0, 0, 1]]"
  unfolding create_view_matrix_def assms
  by (simp add: dot_mm_def dot_vv_def identity_def upt_rec Let_def cos45 sin45)


lemma det_tilted:
  assumes "k * k = 1 / 2"
  shows "det [[fa * k, 0, fa * k, fa * (5 - d * k)],
              [f * (1 / 2), f * k, f * (- 1 / 2), f * (d / 2 + 5)],
              [A * (- 1 / 2), A * k, A * (1 / 2), A * (- (d / 2) - 5) + B],
              [1 / 2, - k, - 1 / 2, d / 2 + 5]] = fa * f * B"
proof -
  have "det [[fa * k, 0, fa * k, fa * (5 - d * k)],
              [f * (1 / 2), f * k, f * (- 1 / 2), f * (d / 2 + 5)],
              [A * (- 1 / 2), A * k, A * (1 / 2), A * (- (d / 2) - 5) + B],
              [1 / 2, - k, - 1 / 2, d / 2 + 5]] = 2 * (k * k) * (fa * f * B)"
    by (simp add: upt_rec algebra_simps)
  then show ?thesis using assms by simp
qed


lemma screen_to_world_returns:
  assumes "widget_width s \<noteq> 0" "widget_height s \<noteq> 0"
    and "det (dot_mm (projection_matrix s) (view_matrix s)) \<noteq> 0"
  shows "\<exists>p. screen_to_world s x y = Inr p"
  using assms by (simp add: screen_to_world_def linalg_inv_def Let_def)

lemma vp_tilted:
  fixes d :: real
  defines "S \<equiv> paintGL_view (resized_widget\<lparr>camera_distance := d\<rparr>)"
  defines "f \<equiv> 1 / tan (radians 45 / 2)"
  shows "dot_mm (projection_matrix S) (view_matrix S)
    = [[f * 3 / 4 * (sqrt 2 / 2), 0, f * 3 / 4 * (sqrt 2 / 2), f * 3 / 4 * (5 - d * (sqrt 2 / 2))],
       [f * (1 / 2), f * (sqrt 2 / 2), f * (- 1 / 2), f * (d / 2 + 5)],
       [- 1001 / 999 * (- 1 / 2), - 1001 / 999 * (sqrt 2 / 2), - 1001 / 999 * (1 / 2),
        - 1001 / 999 * (- (d / 2) - 5) + - 200 / 999],
       [1 / 2, - (sqrt 2 / 2), - 1 / 2, d / 2 + 5]]"
proof -
  have P: "projection_matrix S
           = [[f * 3 / 4, 0, 0, 0], [0, f, 0, 0], [0, 0, - 1001 / 999, - 200 / 999], [0, 0, - 1, 0]]"
    by (simp add: S_def f_def paintGL_view_def resized_widget_def resizeGL_def
        perspective_matrix_def Let_def)
  have V: "view_matrix S
           = [[sqrt 2 / 2, 0, sqrt 2 / 2, 5 - d * (sqrt 2 / 2)],
              [1 / 2, sqrt 2 / 2, - 1 / 2, d / 2 + 5],
              [- 1 / 2, sqrt 2 / 2, 1 / 2, - (d / 2) - 5],
              [0, 0, 0, 1]]"
    using view_tilted [of "resized_widget\<lparr>camera_distance := d\<rparr>"]
    by (simp add: S_def paintGL_view_def resized_widget_def resizeGL_def GLWidget_init_def)
  show ?thesis
    unfolding P V by (simp add: dot_mm_def dot_vv_def)
qed


lemma sqrt2_sq: "sqrt 2 / 2 * (sqrt 2 / 2) = (1 / 2 :: real)"
  by simp

lemma det_vp_tilted:
  "det (dot_mm (projection_matrix (paintGL_view (resized_widget\<lparr>camera_distance := d\<rparr>)))
               (view_matrix (paintGL_view (resized_widget\<lparr>camera_distance := d\<rparr>))))
   = (1 / tan (radians 45 / 2)) * 3 / 4 * (1 / tan (radians 45 / 2)) * (- 200 / 999)"
  unfolding vp_tilted
  by (rule det_tilted [OF sqrt2_sq])

lemma det_vp_tilted_nz:
  "det (dot_mm (projection_matrix (paintGL_view (resized_widget\<lparr>camera_distance := d\<rparr>)))
               (view_matrix (paintGL_view (resized_widget\<lparr>camera_distance := d\<rparr>)))) \<noteq> 0"
  unfolding det_vp_tilted using tan_fov_pos by simp

lemma dot_ground: "dot_vv [a, b, c, e] [gx, gy, 0, 1] = a * gx + b * gy + e"
  by (simp add: dot_vv_def)

lemma clip_tilted:
  fixes d gx gy :: real
  defines "f \<equiv> 1 / tan (radians 45 / 2)"
  shows "clip_coords (paintGL_view (resized_widget\<lparr>camera_distance := d\<rparr>)) [gx, gy, 0, 1] ! 0
           = f * 3 / 4 * (sqrt 2 / 2) * gx + 0 * gy + f * 3 / 4 * (5 - d * (sqrt 2 / 2))"
    and "clip_coords (paintGL_view (resized_widget\<lparr>camera_distance := d\<rparr>)) [gx, gy, 0, 1] ! 1
           = f * (1 / 2) * gx + f * (sqrt 2 / 2) * gy + f * (d / 2 + 5)"
    and "clip_coords (paintGL_view (resized_widget\<lparr>camera_distance := d\<rparr>)) [gx, gy, 0, 1] ! 3
           = 1 / 2 * gx + - (sqrt 2 / 2) * gy + (d / 2 + 5)"
  unfolding clip_coords_def vp_tilted f_def dot_mv_def
  by (simp_all only: list.map nth_Cons_0 nth_Cons_Suc nth_Cons_numeral dot_ground)
     (simp_all add: numeral_eq_Suc)?

lemma sqrt2_assoc: "sqrt 2 * (sqrt 2 * x) = 2 * (x::real)"
  by (simp add: mult.assoc [symmetric])

lemma centre_before:
  "clip_coords (paintGL_view (resized_widget\<lparr>camera_distance := 15\<rparr>))
     [15 - 5 * sqrt 2, 5 - 20 * sqrt 2, 0, 1] ! 0 = 0
   \<and> clip_coords (paintGL_view (resized_widget\<lparr>camera_distance := 15\<rparr>))
     [15 - 5 * sqrt 2, 5 - 20 * sqrt 2, 0, 1] ! 1 = 0
   \<and> clip_coords (paintGL_view (resized_widget\<lparr>camera_distance := 15\<rparr>))
     [15 - 5 * sqrt 2, 5 - 20 * sqrt 2, 0, 1] ! 3 = 40 - 5 * sqrt 2"
proof -
  define f :: real where "f = 1 / tan (radians 45 / 2)"
  have x: "f * 3 / 4 * (sqrt 2 / 2) * (15 - 5 * sqrt 2) + 0 * (5 - 20 * sqrt 2)
           + f * 3 / 4 * (5 - 15 * (sqrt 2 / 2)) = 0"
    by (simp add: field_simps sqrt2_assoc)
  have y: "f * (1 / 2) * (15 - 5 * sqrt 2) + f * (sqrt 2 / 2) * (5 - 20 * sqrt 2)
           + f * (15 / 2 + 5) = 0"
    by (simp add: field_simps sqrt2_assoc)
  have w: "1 / 2 * (15 - 5 * sqrt 2) + - (sqrt 2 / 2) * (5 - 20 * sqrt 2) + (15 / 2 + 5)
           = 40 - 5 * sqrt 2"
    by (simp add: field_simps sqrt2_assoc)
  show ?thesis
    unfolding clip_tilted using x y w unfolding f_def by simp
qed

lemma centre_after:
  "clip_coords (paintGL_view (resized_widget\<lparr>camera_distance := 150 / 11\<rparr>))
     [15 - 5 * sqrt 2, 5 - 20 * sqrt 2, 0, 1] ! 1 < 0
   \<and> 0 < clip_coords (paintGL_view (resized_widget\<lparr>camera_distance := 150 / 11\<rparr>))
     [15 - 5 * sqrt 2, 5 - 20 * sqrt 2, 0, 1] ! 3"
proof -
  define f :: real where "f = 1 / tan (radians 45 / 2)"
  have fpos: "0 < f" using tan_fov_pos by (simp add: f_def)
  have y: "f * (1 / 2) * (15 - 5 * sqrt 2) + f * (sqrt 2 / 2) * (5 - 20 * sqrt 2)
           + f * (150 / 11 / 2 + 5) = f * (- 15 / 22)"
    by (simp add: field_simps sqrt2_assoc)
  have w: "1 / 2 * (15 - 5 * sqrt 2) + - (sqrt 2 / 2) * (5 - 20 * sqrt 2) + (150 / 11 / 2 + 5)
           = 865 / 22 - 5 * sqrt 2"
    by (simp add: field_simps sqrt2_assoc)
  have s2: "sqrt 2 < 2"
    using real_sqrt_less_iff [of 2 4] by simp
  have "f * (- 15 / 22) < 0" using fpos by simp
  moreover have "0 < 865 / 22 - 5 * sqrt 2" using s2 by simp
  ultimately show ?thesis
    unfolding clip_tilted using y w unfolding f_def by simp
qed


lemma centre_moved:
  "clip_coords (paintGL_view (resized_widget\<lparr>camera_distance := 150 / 11\<rparr>))
     [150 / 11 - 5 * sqrt 2, 5 - 205 / 11 * sqrt 2, 0, 1] ! 0 = 0
   \<and> clip_coords (paintGL_view (resized_widget\<lparr>camera_distance := 150 / 11\<rparr>))
     [150 / 11 - 5 * sqrt 2, 5 - 205 / 11 * sqrt 2, 0, 1] ! 1 = 0
   \<and> 0 < clip_coords (paintGL_view (resized_widget\<lparr>camera_distance := 150 / 11\<rparr>))
     [150 / 11 - 5 * sqrt 2, 5 - 205 / 11 * sqrt 2, 0, 1] ! 3"
proof -
  define f :: real where "f = 1 / tan (radians 45 / 2)"
  have x: "f * 3 / 4 * (sqrt 2 / 2) * (150 / 11 - 5 * sqrt 2) + 0 * (5 - 205 / 11 * sqrt 2)
           + f * 3 / 4 * (5 - 150 / 11 * (sqrt 2 / 2)) = 0"
    by (simp add: field_simps sqrt2_assoc)
  have y: "f * (1 / 2) * (150 / 11 - 5 * sqrt 2) + f * (sqrt 2 / 2) * (5 - 205 / 11 * sqrt 2)
           + f * (150 / 11 / 2 + 5) = 0"
    by (simp add: field_simps sqrt2_assoc)
  have w: "1 / 2 * (150 / 11 - 5 * sqrt 2) + - (sqrt 2 / 2) * (5 - 205 / 11 * sqrt 2)
           + (150 / 11 / 2 + 5) = 410 / 11 - 5 * sqrt 2"
    by (simp add: field_simps sqrt2_assoc)
  have s2: "sqrt 2 < 2"
    using real_sqrt_less_iff [of 2 4] by simp
  have "0 < 410 / 11 - 5 * sqrt 2" using s2 by simp
  then show ?thesis
    unfolding clip_tilted using x y w unfolding f_def by simp
qed

lemma resized_15: "resized_widget\<lparr>camera_distance := 15\<rparr> = resized_widget"
  by (simp add: resized_widget_def resizeGL_def GLWidget_init_def)

text \<open>
  C5. The zoom handler does not keep the ground point at the screen centre. On the 800
  by 600 widget after its first resize and repaint (camera rotation 45, 45, distance 15,
  position (-5, -5, 5)) the ground point \<open>g\<close> = (15 - 5 sqrt 2, 5 - 20 sqrt 2, 0) is drawn at the
  screen centre. One zoom-in tick sets the distance to 15 / 1.1 and leaves the camera
  position and the view matrix as they were: both calls of \<open>_screen_to_world\<close> inside
  \<open>wheelEvent\<close> read the same, not yet rebuilt, view matrix, so they return the same
  point and the compensation is zero. After the repaint the handler requests, \<open>g\<close> is
  drawn below the centre, and the ground point at the centre is \<open>g'\<close>, 15 / 11 away from
  \<open>g\<close> in x alone.
\<close>

theorem zoom_pivot_drifts:
  "(let s = paintGL_view resized_widget;
        r = wheelEvent 120 s;
        s' = paintGL_view (snd r);
        g = [15 - 5 * sqrt 2, 5 - 20 * sqrt 2, 0, 1];
        g' = [150 / 11 - 5 * sqrt 2, 5 - 205 / 11 * sqrt 2, 0, 1]
    in fst r = None
       \<and> camera_distance (snd r) = 150 / 11
       \<and> camera_position (snd r) = camera_position s
       \<and> view_matrix (snd r) = view_matrix s
       \<and> screen_to_world (snd r) 400 300 = screen_to_world s 400 300
       \<and> clip_coords s g ! 0 = 0 \<and> clip_coords s g ! 1 = 0 \<and> 0 < clip_coords s g ! 3
       \<and> clip_coords s' g ! 1 < 0 \<and> 0 < clip_coords s' g ! 3
       \<and> clip_coords s' g' ! 0 = 0 \<and> clip_coords s' g' ! 1 = 0 \<and> 0 < clip_coords s' g' ! 3
       \<and> g ! 0 - g' ! 0 = 15 / 11)"
proof -
  let ?s = "paintGL_view resized_widget"
  have s15: "?s = paintGL_view (resized_widget\<lparr>camera_distance := 15\<rparr>)"
    by (simp add: resized_15)
  have f: "zoom_speed ?s = 11 / 10" "min_zoom ?s = 2" "max_zoom ?s = 50"
    "camera_distance ?s = 15" "widget_width ?s = 800" "widget_height ?s = 600"
    by (simp_all add: paintGL_view_def resized_widget_def resizeGL_def GLWidget_init_def)
  have nz: "det (dot_mm (projection_matrix ?s) (view_matrix ?s)) \<noteq> 0"
    unfolding s15 by (rule det_vp_tilted_nz)
  obtain p where centre: "screen_to_world ?s (real_of_int (widget_width ?s) / 2)
                            (real_of_int (widget_height ?s) / 2) = Inr p"
    using screen_to_world_returns [of ?s, OF _ _ nz] f by auto
  have r: "wheelEvent 120 ?s = (None, ?s\<lparr>camera_distance := 150 / 11\<rparr>)"
    using wheelEvent_accepted [of ?s 120, OF f(1) _ _ centre] by (simp add: f)
  have repaint: "paintGL_view (?s\<lparr>camera_distance := 150 / 11\<rparr>)
                 = paintGL_view (resized_widget\<lparr>camera_distance := 150 / 11\<rparr>)"
    by (simp add: paintGL_view_def create_view_matrix_def)
  have s2: "sqrt 2 < 2"
    using real_sqrt_less_iff [of 2 4] by simp
  have wpos: "(0::real) < 40 - 5 * sqrt 2" using s2 by simp
  have before: "clip_coords ?s [15 - 5 * sqrt 2, 5 - 20 * sqrt 2, 0, 1] ! 0 = 0
      \<and> clip_coords ?s [15 - 5 * sqrt 2, 5 - 20 * sqrt 2, 0, 1] ! 1 = 0
      \<and> 0 < clip_coords ?s [15 - 5 * sqrt 2, 5 - 20 * sqrt 2, 0, 1] ! 3"
    unfolding s15 using centre_before wpos by simp
  show ?thesis
    unfolding Let_def r snd_conv fst_conv repaint
    using before centre_after centre_moved
    by (simp add: screen_to_world_distance)
qed

section \<open>Visual proxies\<close>

lemma port_pose_scenario:
  "port_pose ((Station_init 2 3 (StationType_init ''Loading'' ''#4CAF50'' []) ''A'' None)
               \<lparr>s_direction := 90\<rparr>) = (2, 9 / 2, 90)"
proof -
  have a: "(90::real) * pi / 180 = pi / 2" by simp
  have f: "\<lfloor>(90::real) / 360\<rfloor> = 0" by simp
  show ?thesis
    by (simp add: port_pose_def Station_init_def StationType_init_def py_mod_def Let_def)
qed

text \<open>
  C1. The station proxy is never constructed, so no port is derived. For the station at
  (2, 3) with direction 90 and a type with port offset (1.5, 0) and port direction 0,
  \<open>QStation(station)\<close> raises \<open>AttributeError\<close> where it reads \<open>self.station_type\<close>,
  and so it does for every station; \<open>set_direction\<close> on any proxy stores the angle in
  the station and then raises at the same read inside \<open>_update_port\<close>, leaving the port
  as it was. The arithmetic that \<open>_update_port\<close> holds for the port does give
  (2, 4.5) and heading 90 on that station.
\<close>

theorem station_proxy_never_built:
  "QStation_init ((Station_init 2 3 (StationType_init ''Loading'' ''#4CAF50'' []) ''A'' None)
                   \<lparr>s_direction := 90\<rparr>)
     = Inl (AttributeError ''QStation'' ''station_type'')
   \<and> port_pose ((Station_init 2 3 (StationType_init ''Loading'' ''#4CAF50'' []) ''A'' None)
                  \<lparr>s_direction := 90\<rparr>) = (2, 9 / 2, 90)
   \<and> QStation_init st = Inl (AttributeError ''QStation'' ''station_type'')
   \<and> set_direction angle q
       = (Some (AttributeError ''QStation'' ''station_type''),
          q\<lparr>station := (station q)\<lparr>s_direction := angle\<rparr>\<rparr>)"
  using port_pose_scenario
  by (simp add: QStation_init_def QStation_station_type_def set_direction_def update_port_def
      Let_def)

text \<open>
  C10. The AGV proxy is positioned at (100 x, -100 y); the path node proxy's ellipse
  (its item position stays at the origin) and the rectangle a station proxy hands to its
  base class are centred at (100 x, -100 y). The station proxy's constructor then raises
  \<open>AttributeError\<close>, so a station gets no proxy.
\<close>

theorem proxy_scene_placement:
  "qa_pos (QAGV_init a) = (100 * fst (a_position a), - (100 * snd (a_position a)))
   \<and> rect_center (qn_rect (QPathNode_init n))
       = (100 * fst (n_position n), - (100 * snd (n_position n)))
   \<and> qn_pos (QPathNode_init n) = (0, 0)
   \<and> rect_center (QStation_rect st) = (100 * fst (s_position st), - (100 * snd (s_position st)))
   \<and> QStation_init st = Inl (AttributeError ''QStation'' ''station_type'')"
  by (simp add: QAGV_init_def QPathNode_init_def QPathNode_update_arrow_def QStation_rect_def
      QStation_init_def QStation_station_type_def rect_center_def Let_def split_beta)

section \<open>Rendering a frame\<close>

lemma store_emit: "store_of (emit cs sc) = store_of sc"
  by (simp add: store_of_def emit_def)

lemma store_draw_station: "store_of (snd (draw_station q sc)) = store_of sc"
  by (simp add: draw_station_def Let_def split_beta store_emit split: option.splits)

lemma store_draw_path_node: "store_of (snd (draw_path_node q sc)) = store_of sc"
  by (simp add: draw_path_node_def Let_def split_beta store_emit)

lemma store_paint_agv: "store_of (snd (paint_agv q sc)) = store_of sc"
  by (simp add: paint_agv_def draw_agv_def Let_def split_beta store_emit)

lemma store_for_each:
  assumes "\<And>x s. store_of (snd (f x s)) = store_of s"
  shows "store_of (snd (for_each f xs sc)) = store_of sc"
proof (induction xs arbitrary: sc)
  case Nil
  show ?case by simp
next
  case (Cons x xs)
  obtain r sc1 where fx: "f x sc = (r, sc1)" by (cases "f x sc")
  have keep: "store_of sc1 = store_of sc" using assms [of x sc] fx by simp
  show ?case
  proof (cases r)
    case None
    then show ?thesis using fx keep Cons.IH [of sc1] by simp
  next
    case (Some e)
    then show ?thesis using fx keep by simp
  qed
qed

lemma store_then:
  assumes "store_of (snd r) = store_of sc"
    and "\<And>s. store_of s = store_of sc \<Longrightarrow> store_of (snd (g s)) = store_of sc"
  shows "store_of (snd (case r of (Some e, s) \<Rightarrow> (Some e, s) | (None, s) \<Rightarrow> g s)) = store_of sc"
proof (cases r)
  case (Pair e s)
  then show ?thesis using assms by (cases e) simp_all
qed

lemma store_for_each_from:
  assumes "\<And>x s. store_of (snd (f x s)) = store_of s" and "store_of s0 = store_of sc"
  shows "store_of (snd (for_each f xs s0)) = store_of sc"
  using store_for_each [of f xs s0] assms by simp

text \<open>
  C9. One frame leaves the store as it was, also when it ends in an exception: the
  backend holder, the proxy holder with every proxy and the backend entity it shows
  (position, direction, size, status, name, id, port), and the loaded meshes are the same
  after \<open>paintGL\<close>. What the frame writes is the widget's view matrix, rebuilt from the
  camera, and the stream of OpenGL calls.
\<close>

theorem paintGL_leaves_store:
  "backend (snd (paintGL sc)) = backend sc
   \<and> qholder (snd (paintGL sc)) = qholder sc
   \<and> station_meshes (snd (paintGL sc)) = station_meshes sc
   \<and> get_all_qstations (qholder (snd (paintGL sc))) = get_all_qstations (qholder sc)
   \<and> get_all_qpath_nodes (qholder (snd (paintGL sc))) = get_all_qpath_nodes (qholder sc)
   \<and> get_all_qagvs (qholder (snd (paintGL sc))) = get_all_qagvs (qholder sc)
   \<and> widget (snd (paintGL sc)) = (widget sc)\<lparr>view_matrix := create_view_matrix (widget sc)\<rparr>"
proof -
  have "store_of (snd (paintGL sc)) = store_of (sc\<lparr>widget := paintGL_view (widget sc)\<rparr>)"
    unfolding paintGL_def Let_def
  proof (rule store_then)
    show "store_of (snd (for_each draw_station
            (get_all_qstations (qholder (emit
              [GlLoadProjection (transpose (projection_matrix (widget
                  (emit [GlClear] sc\<lparr>widget := paintGL_view (widget (emit [GlClear] sc))\<rparr>)))),
               GlLoadModelview (transpose (view_matrix (widget
                  (emit [GlClear] sc\<lparr>widget := paintGL_view (widget (emit [GlClear] sc))\<rparr>)))),
               GlDrawGrid (gl_map_size (widget
                  (emit [GlClear] sc\<lparr>widget := paintGL_view (widget (emit [GlClear] sc))\<rparr>)))]
              (emit [GlClear] sc\<lparr>widget := paintGL_view (widget (emit [GlClear] sc))\<rparr>))))
            (emit
              [GlLoadProjection (transpose (projection_matrix (widget
                  (emit [GlClear] sc\<lparr>widget := paintGL_view (widget (emit [GlClear] sc))\<rparr>)))),
               GlLoadModelview (transpose (view_matrix (widget
                  (emit [GlClear] sc\<lparr>widget := paintGL_view (widget (emit [GlClear] sc))\<rparr>)))),
               GlDrawGrid (gl_map_size (widget
                  (emit [GlClear] sc\<lparr>widget := paintGL_view (widget (emit [GlClear] sc))\<rparr>)))]
              (emit [GlClear] sc\<lparr>widget := paintGL_view (widget (emit [GlClear] sc))\<rparr>))))
          = store_of (sc\<lparr>widget := paintGL_view (widget sc)\<rparr>)"
      by (rule store_for_each_from [OF store_draw_station]) (simp add: store_of_def emit_def)
  next
    fix s4 assume s4: "store_of s4 = store_of (sc\<lparr>widget := paintGL_view (widget sc)\<rparr>)"
    show "store_of (snd (case for_each draw_path_node (get_all_qpath_nodes (qholder s4)) s4 of
                           (Some e, sc5) \<Rightarrow> (Some e, sc5)
                         | (None, sc5) \<Rightarrow> for_each paint_agv (get_all_qagvs (qholder sc5)) sc5))
          = store_of (sc\<lparr>widget := paintGL_view (widget sc)\<rparr>)"
    proof (rule store_then)
      show "store_of (snd (for_each draw_path_node (get_all_qpath_nodes (qholder s4)) s4))
            = store_of (sc\<lparr>widget := paintGL_view (widget sc)\<rparr>)"
        by (rule store_for_each_from [OF store_draw_path_node s4])
    next
      fix s5 assume s5: "store_of s5 = store_of (sc\<lparr>widget := paintGL_view (widget sc)\<rparr>)"
      show "store_of (snd (for_each paint_agv (get_all_qagvs (qholder s5)) s5))
            = store_of (sc\<lparr>widget := paintGL_view (widget sc)\<rparr>)"
        by (rule store_for_each_from [OF store_paint_agv s5])
    qed
  qed
  then show ?thesis by (simp add: store_of_def paintGL_view_def)
qed

section \<open>Persistence\<close>

lemma one_node_store:
  "path_nodes (class_holder one_node_editor) = [(2, PathNode_init 1 2 90 (Some 2) None)]
   \<and> stations (class_holder one_node_editor) = []
   \<and> agvs (class_holder one_node_editor) = []"
  by (simp add: one_node_editor_def MapEditor_init_def add_path_node_def delete_path_node_def
      ClassHolder_init_def IDManager_init_def get_new_id_def PathNode_init_def Let_def)

text \<open>
  C3. The round trip does not give the store back. From the store with the single path
  node (id 2, direction 90), \<open>save_map\<close> writes the node as (2, 1, 2, 90); \<open>load_map\<close>
  of that document clears the store, builds the node as \<open>PathNode(x, y, node_id)\<close>,
  adds it under the fresh id 1 with direction 2, and then raises \<open>AttributeError\<close> at
  \<open>qclass_holder.add_path_node\<close>. A store that holds a station cannot be exported at
  all: \<open>save_map\<close> raises \<open>AttributeError\<close> at \<open>station.size.width\<close>.
\<close>

theorem round_trip_loses_path_node:
  "(case save_map one_node_editor of
      Inl e \<Rightarrow> False
    | Inr doc \<Rightarrow>
        d_path_nodes doc = [\<lparr>dn_id = Some 2, dn_x = 1, dn_y = 2, dn_direction = 90\<rparr>]
        \<and> fst (load_map doc one_node_editor)
            = Some (AttributeError ''QClassHolder'' ''add_path_node'')
        \<and> path_nodes (class_holder (snd (load_map doc one_node_editor)))
            = [(1, PathNode_init 1 2 2 (Some 1) None)])
   \<and> path_nodes (class_holder one_node_editor) = [(2, PathNode_init 1 2 90 (Some 2) None)]
   \<and> save_map (MapEditor_init\<lparr>class_holder :=
          snd (add_station (Station_init 2 3 Loading ''A'' None) ClassHolder_init)\<rparr>)
       = Inl (AttributeError ''list'' ''width'')"
proof -
  have doc: "save_map one_node_editor =
      Inr \<lparr>d_map_size = 10,
           d_station_types = map (\<lambda>t. \<lparr>dt_name = t_name t, dt_color = t_color t,
                                      dt_description = t_description t\<rparr>)
                                (map snd StationTypeManager_init),
           d_stations = [],
           d_path_nodes = [\<lparr>dn_id = Some 2, dn_x = 1, dn_y = 2, dn_direction = 90\<rparr>],
           d_agvs = []\<rparr>"
    using one_node_store
    by (simp add: save_map_def get_all_stations_def get_all_agvs_def get_all_path_nodes_def
        export_node_def PathNode_init_def Let_def)
       (simp add: one_node_editor_def MapEditor_init_def)
  have ld: "\<And>ed. load_nodes [\<lparr>dn_id = Some 2, dn_x = 1, dn_y = 2, dn_direction = 90\<rparr>] [] ed
      = (Inl (AttributeError ''QClassHolder'' ''add_path_node''),
         ed\<lparr>class_holder := snd (add_path_node (PathNode_init 1 2 2 None None) (class_holder ed))\<rparr>)"
    by (simp add: py_int_def QClassHolder_add_path_node_def Let_def split_beta)
  have cleared: "path_nodes (class_holder (clear_existing_data one_node_editor)) = []
      \<and> id_counter (path_node_id_manager (class_holder (clear_existing_data one_node_editor))) = 0"
    by (simp add: clear_existing_data_def reset_def)
  have st: "save_map (MapEditor_init\<lparr>class_holder :=
          snd (add_station (Station_init 2 3 Loading ''A'' None) ClassHolder_init)\<rparr>)
       = Inl (AttributeError ''list'' ''width'')"
    by (simp add: save_map_def get_all_stations_def add_station_def Station_init_def
        ClassHolder_init_def IDManager_init_def get_new_id_def export_station_def Let_def)
  show ?thesis
    using one_node_store cleared st
    by (simp add: doc load_map_def ld Let_def add_path_node_def get_new_id_def PathNode_init_def
        del: load_nodes.simps)
qed

end
